theory Spec2Isabelle
  imports Complex_Main "HOL-Library.Sublist"
begin

section \<open>Python values used by the two notebooks\<close>

text \<open>
  The exceptions that the modelled code can raise. A function that can raise returns
  \<open>py_error + 'a\<close>, with \<open>Inl\<close> carrying the exception.
\<close>

datatype py_error = IndexError | TypeError | ValueError | ValidationError | UnicodeDecodeError

text \<open>
  A Python \<open>str\<close> is represented by its UTF-8 encoding, a HOL \<open>string\<close> (a list of 8-bit
  characters); a Python \<open>bytes\<close> object is a \<open>string\<close> as well. Under this representation
  \<open>+\<close> and \<open>"".join\<close> are list concatenation, the truth value of a \<open>str\<close> is non-emptiness,
  and splitting on \<open>'\n'\<close> is splitting at the byte \<open>0x0A\<close> (that byte occurs in no
  multi-byte sequence). \<open>str.encode("utf-8")\<close> returns the representation itself, and
  \<open>bytes.decode("utf-8")\<close> returns its argument when it is well-formed UTF-8 and raises
  \<open>UnicodeDecodeError\<close> otherwise.
\<close>

definition newline :: char where
  "newline = CHR 0x0A"

definition in_range :: "char \<Rightarrow> nat \<Rightarrow> nat \<Rightarrow> bool" where
  "in_range b lo hi = (lo \<le> of_char b \<and> (of_char b :: nat) \<le> hi)"

text \<open>Well-formed byte sequences of UTF-8 (the strict decoder of Python accepts exactly these).\<close>

fun well_formed_utf8 :: "string \<Rightarrow> bool" where
  "well_formed_utf8 [] = True"
| "well_formed_utf8 (b0 # rest) =
     (if in_range b0 0x00 0x7F then well_formed_utf8 rest
      else if in_range b0 0xC2 0xDF then
        (case rest of
           b1 # r \<Rightarrow> in_range b1 0x80 0xBF \<and> well_formed_utf8 r
         | _ \<Rightarrow> False)
      else if in_range b0 0xE0 0xEF then
        (case rest of
           b1 # b2 # r \<Rightarrow>
             in_range b1 (if b0 = CHR 0xE0 then 0xA0 else 0x80)
                         (if b0 = CHR 0xED then 0x9F else 0xBF)
             \<and> in_range b2 0x80 0xBF \<and> well_formed_utf8 r
         | _ \<Rightarrow> False)
      else if in_range b0 0xF0 0xF4 then
        (case rest of
           b1 # b2 # b3 # r \<Rightarrow>
             in_range b1 (if b0 = CHR 0xF0 then 0x90 else 0x80)
                         (if b0 = CHR 0xF4 then 0x8F else 0xBF)
             \<and> in_range b2 0x80 0xBF \<and> in_range b3 0x80 0xBF \<and> well_formed_utf8 r
         | _ \<Rightarrow> False)
      else False)"

definition decode_utf8 :: "string \<Rightarrow> py_error + string" where
  "decode_utf8 bs = (if well_formed_utf8 bs then Inr bs else Inl UnicodeDecodeError)"

definition encode_utf8 :: "string \<Rightarrow> string" where
  "encode_utf8 s = s"

text \<open>
  \<open>s.split(sep)\<close> for a one-character separator: the fragments between the occurrences of
  \<open>sep\<close>, empty fragments included (\<open>"".split('\n') == [""]\<close>,
  \<open>"a\n".split('\n') == ["a", ""]\<close>). \<open>split_from\<close> scans the text with the fragment read
  so far.
\<close>

fun split_from :: "char \<Rightarrow> string \<Rightarrow> string \<Rightarrow> string list" where
  "split_from sep cur [] = [cur]"
| "split_from sep cur (c # cs) =
     (if c = sep then cur # split_from sep [] cs else split_from sep (cur @ [c]) cs)"

definition str_split :: "string \<Rightarrow> char \<Rightarrow> string list" where
  "str_split s sep = split_from sep [] s"

section \<open>Field declarations (pydantic)\<close>

text \<open>
  \<open>pydantic.Field(default, title=..., description=..., allow_mutation=...)\<close>. The default
  \<open>...\<close> (Ellipsis) marks a required field. \<open>allow_mutation\<close> is \<open>True\<close> unless given.
\<close>

datatype 'a field_default = Required | Default 'a

record 'a FieldInfo =
  default_value :: "'a field_default"
  title :: string
  description :: string
  allow_mutation :: bool

record Config =
  validate_assignment :: bool

text \<open>
  Construction of a model: a keyword that is not supplied takes the field's default; a
  required field that is not supplied is a validation error.
\<close>

definition field_value :: "'a FieldInfo \<Rightarrow> 'a option \<Rightarrow> py_error + 'a" where
  "field_value f supplied =
     (case supplied of
        Some v \<Rightarrow> Inr v
      | None \<Rightarrow>
          (case default_value f of
             Default d \<Rightarrow> Inr d
           | Required \<Rightarrow> Inl ValidationError))"

text \<open>
  Assignment to a declared field of an instance (\<open>BaseModel.__setattr__\<close>): when the
  model's \<open>Config\<close> sets \<open>validate_assignment\<close>, a field declared with
  \<open>allow_mutation=False\<close> raises \<open>TypeError\<close>; the flag of the field is not looked at
  otherwise. Only values of the field's declared type are considered.
\<close>

definition check_assignment :: "Config \<Rightarrow> 'a FieldInfo \<Rightarrow> py_error option" where
  "check_assignment cfg f =
     (if validate_assignment cfg \<and> \<not> allow_mutation f then Some TypeError else None)"

datatype assignment =
    Roles "string list"
  | Messages "string list"
  | Completion string

section \<open>prompting.ipynb\<close>

record Prompting =
  roles :: "string list"
  messages :: "string list"
  completion :: string

definition Prompting_Config :: Config where
  "Prompting_Config = \<lparr>validate_assignment = True\<rparr>"

definition Prompting_roles :: "string list FieldInfo" where
  "Prompting_roles =
     \<lparr>default_value = Required, title = ''Roles'',
      description = ''A list of roles in the Prompting scenario. Immuatable.'',
      allow_mutation = False\<rparr>"

definition Prompting_messages :: "string list FieldInfo" where
  "Prompting_messages =
     \<lparr>default_value = Required, title = ''Messages'',
      description = ''A list of messages in the Prompting scenario. Immutable.'',
      allow_mutation = False\<rparr>"

definition Prompting_completion :: "string FieldInfo" where
  "Prompting_completion =
     \<lparr>default_value = Default '''', title = ''Completion'',
      description = ''Completion status of the current Prompting object. This attribute is mutable and can be updated.'',
      allow_mutation = True\<rparr>"

definition Prompting_init ::
  "string list option \<Rightarrow> string list option \<Rightarrow> string option \<Rightarrow> py_error + Prompting" where
  "Prompting_init r m c =
     (case field_value Prompting_roles r of
        Inl e \<Rightarrow> Inl e
      | Inr rv \<Rightarrow>
          (case field_value Prompting_messages m of
             Inl e \<Rightarrow> Inl e
           | Inr mv \<Rightarrow>
               (case field_value Prompting_completion c of
                  Inl e \<Rightarrow> Inl e
                | Inr cv \<Rightarrow>
                    Inr \<lparr>Prompting.roles = rv, messages = mv, completion = cv\<rparr>)))"

definition Prompting_setattr :: "Prompting \<Rightarrow> assignment \<Rightarrow> py_error + Prompting" where
  "Prompting_setattr self a =
     (case a of
        Roles v \<Rightarrow>
          (case check_assignment Prompting_Config Prompting_roles of
             Some e \<Rightarrow> Inl e
           | None \<Rightarrow> Inr (self\<lparr>Prompting.roles := v\<rparr>))
      | Messages v \<Rightarrow>
          (case check_assignment Prompting_Config Prompting_messages of
             Some e \<Rightarrow> Inl e
           | None \<Rightarrow> Inr (self\<lparr>Prompting.messages := v\<rparr>))
      | Completion v \<Rightarrow>
          (case check_assignment Prompting_Config Prompting_completion of
             Some e \<Rightarrow> Inl e
           | None \<Rightarrow> Inr (self\<lparr>Prompting.completion := v\<rparr>)))"

text \<open>
  A function that receives the synapse returns its result together with the synapse as the
  call leaves it; \<open>prompt\<close> returns the synapse object itself.
\<close>

definition Prompting_deserialize :: "Prompting \<Rightarrow> string \<times> Prompting" where
  "Prompting_deserialize self = (Prompting.completion self, self)"



definition prompting_prompt :: "Prompting \<Rightarrow> Prompting" where
  "prompting_prompt synapse = synapse\<lparr>Prompting.completion := ''I am a chatbot''\<rparr>"

definition prompting_blacklist :: "Prompting \<Rightarrow> (bool \<times> string) \<times> Prompting" where
  "prompting_blacklist synapse = ((False, ''''), synapse)"

definition prompting_priority :: "Prompting \<Rightarrow> real \<times> Prompting" where
  "prompting_priority synapse = (0, synapse)"

section \<open>streaming.ipynb\<close>

record StreamPrompting =
  roles :: "string list"
  messages :: "string list"
  completion :: string

definition StreamPrompting_roles :: "string list FieldInfo" where
  "StreamPrompting_roles =
     \<lparr>default_value = Required, title = ''Roles'',
      description = ''A list of roles in the Prompting scenario. Immuatable.'',
      allow_mutation = False\<rparr>"

definition StreamPrompting_messages :: "string list FieldInfo" where
  "StreamPrompting_messages =
     \<lparr>default_value = Required, title = ''Messages'',
      description = ''A list of messages in the Prompting scenario. Immutable.'',
      allow_mutation = False\<rparr>"

definition StreamPrompting_completion :: "string FieldInfo" where
  "StreamPrompting_completion =
     \<lparr>default_value = Default '''', title = ''Completion'',
      description = ''Completion status of the current Prompting object. This attribute is mutable and can be updated.'',
      allow_mutation = True\<rparr>"

definition StreamPrompting_init ::
  "string list option \<Rightarrow> string list option \<Rightarrow> string option \<Rightarrow> py_error + StreamPrompting" where
  "StreamPrompting_init r m c =
     (case field_value StreamPrompting_roles r of
        Inl e \<Rightarrow> Inl e
      | Inr rv \<Rightarrow>
          (case field_value StreamPrompting_messages m of
             Inl e \<Rightarrow> Inl e
           | Inr mv \<Rightarrow>
               (case field_value StreamPrompting_completion c of
                  Inl e \<Rightarrow> Inl e
                | Inr cv \<Rightarrow>
                    Inr \<lparr>StreamPrompting.roles = rv, messages = mv, completion = cv\<rparr>)))"

text \<open>
  \<open>StreamPrompting\<close> declares no \<open>Config\<close> of its own: the one in force is inherited from
  the base class \<open>bt.StreamingSynapse\<close> of the bittensor library, and is a parameter here.
\<close>

definition StreamPrompting_setattr ::
  "Config \<Rightarrow> StreamPrompting \<Rightarrow> assignment \<Rightarrow> py_error + StreamPrompting" where
  "StreamPrompting_setattr inherited self a =
     (case a of
        Roles v \<Rightarrow>
          (case check_assignment inherited StreamPrompting_roles of
             Some e \<Rightarrow> Inl e
           | None \<Rightarrow> Inr (self\<lparr>StreamPrompting.roles := v\<rparr>))
      | Messages v \<Rightarrow>
          (case check_assignment inherited StreamPrompting_messages of
             Some e \<Rightarrow> Inl e
           | None \<Rightarrow> Inr (self\<lparr>StreamPrompting.messages := v\<rparr>))
      | Completion v \<Rightarrow>
          (case check_assignment inherited StreamPrompting_completion of
             Some e \<Rightarrow> Inl e
           | None \<Rightarrow> Inr (self\<lparr>StreamPrompting.completion := v\<rparr>)))"

subsection \<open>The receiving side\<close>

text \<open>
  The inner loop of \<open>process_streaming_response\<close>:
  \<^verbatim>\<open>for token in tokens: if token: self.completion += token\<close>, on the value of \<open>completion\<close>.
\<close>

definition append_tokens :: "string \<Rightarrow> string list \<Rightarrow> string" where
  "append_tokens c tokens = foldl (\<lambda>acc token. if token \<noteq> [] then acc @ token else acc) c tokens"

text \<open>
  \<open>process_streaming_response\<close> on the finite sequence of chunks that
  \<open>response.content.iter_any()\<close> delivers. The field \<open>completion\<close> is declared \<open>str\<close>, so the
  guard \<open>if self.completion is None\<close> does not fire on a value of this type and leaves the
  synapse as it is. The synapse is updated in place: when decoding a chunk raises, the text of
  the earlier chunks stays in \<open>completion\<close>, and the result carries the exception.
\<close>

fun process_streaming_response ::
  "StreamPrompting \<Rightarrow> string list \<Rightarrow> StreamPrompting \<times> py_error option" where
  "process_streaming_response self [] = (self, None)"
| "process_streaming_response self (chunk # chunks) =
     (case decode_utf8 chunk of
        Inl e \<Rightarrow> (self, Some e)
      | Inr text \<Rightarrow>
          process_streaming_response
            (self\<lparr>StreamPrompting.completion :=
               append_tokens (StreamPrompting.completion self) (str_split text newline)\<rparr>)
            chunks)"

definition StreamPrompting_deserialize :: "StreamPrompting \<Rightarrow> string \<times> StreamPrompting" where
  "StreamPrompting_deserialize self = (StreamPrompting.completion self, self)"

subsection \<open>The sending side\<close>

text \<open>
  The GPT-2 tokenizer is an external collaborator: \<open>input_ids\<close> is the row of token ids of a
  text (\<open>tokenizer(text, return_tensors="pt").input_ids\<close> has shape \<open>(1, n)\<close>) and
  \<open>decode\<close> turns one id into text.
\<close>

record tokenizer =
  input_ids :: "string \<Rightarrow> nat list"
  decode :: "nat \<Rightarrow> string"

text \<open>
  \<open>squeeze()\<close> removes every dimension of size 1: a row of exactly one id becomes a
  0-dimensional tensor, any other row a 1-dimensional one. Iterating over a 0-dimensional
  tensor raises \<open>TypeError\<close>, which is what the generator expression of \<open>model\<close> does first.
\<close>

datatype tensor = Scalar nat | Vector "nat list"

definition squeeze :: "nat list \<Rightarrow> tensor" where
  "squeeze row = (case row of [x] \<Rightarrow> Scalar x | _ \<Rightarrow> Vector row)"

definition model :: "tokenizer \<Rightarrow> tensor \<Rightarrow> py_error + string list" where
  "model tok ids =
     (case ids of
        Scalar _ \<Rightarrow> Inl TypeError
      | Vector xs \<Rightarrow> Inr (map (decode tok) xs))"

record asgi_message =
  msg_type :: string
  body :: string
  more_body :: bool

definition N :: nat where
  "N = 4"

definition http_response_body :: "string \<Rightarrow> bool \<Rightarrow> asgi_message" where
  "http_response_body joined_buffer more_flag =
     \<lparr>msg_type = ''http.response.body'', body = encode_utf8 joined_buffer,
      more_body = more_flag\<rparr>"

text \<open>
  The loop of \<open>_prompt\<close> over the tokens, with the buffer, and the flush after it. Each call
  \<open>await send({...})\<close> puts its message on the wire: the result is the list of these
  messages in the order of the calls. \<open>http_response_body\<close> builds the dictionary that is
  sent.
\<close>

fun send_tokens :: "string list \<Rightarrow> string list \<Rightarrow> asgi_message list" where
  "send_tokens [] buffer =
     (if buffer \<noteq> [] then [http_response_body (concat buffer) False] else [])"
| "send_tokens (token # tokens) buffer =
     (if length (buffer @ [token]) = N
      then http_response_body (concat (buffer @ [token])) True # send_tokens tokens []
      else send_tokens tokens (buffer @ [token]))"

definition inner_prompt :: "tokenizer \<Rightarrow> string \<Rightarrow> py_error + asgi_message list" where
  "inner_prompt tok text =
     (case model tok (squeeze (input_ids tok text)) of
        Inl e \<Rightarrow> Inl e
      | Inr tokens \<Rightarrow> Inr (send_tokens tokens []))"

text \<open>
  \<open>synapse.create_streaming_response(token_streamer)\<close> pairs the synapse with the streamer.
  The streamer \<open>partial(_prompt, message)\<close> is represented by what running it does: the
  messages it sends, or the exception it raises.
\<close>

record BTStreamingResponse =
  synapse_model :: StreamPrompting
  token_streamer :: "py_error + asgi_message list"

definition streaming_prompt :: "tokenizer \<Rightarrow> StreamPrompting \<Rightarrow> py_error + BTStreamingResponse" where
  "streaming_prompt tok synapse =
     (case StreamPrompting.messages synapse of
        [] \<Rightarrow> Inl IndexError
      | message # _ \<Rightarrow>
          Inr \<lparr>synapse_model = synapse, token_streamer = inner_prompt tok message\<rparr>)"

definition streaming_blacklist :: "StreamPrompting \<Rightarrow> (bool \<times> string) \<times> StreamPrompting" where
  "streaming_blacklist synapse = ((False, ''''), synapse)"

definition streaming_priority :: "StreamPrompting \<Rightarrow> real \<times> StreamPrompting" where
  "streaming_priority synapse = (0, synapse)"

subsection \<open>Batches, as the specification words them\<close>

text \<open>
  The successive full groups of \<open>n\<close> elements of a sequence, and what is left over after
  them.
\<close>

function batches :: "nat \<Rightarrow> 'a list \<Rightarrow> 'a list list" where
  "batches n xs = (if 0 < n \<and> n \<le> length xs then take n xs # batches n (drop n xs) else [])"
  by pat_completeness auto
termination
  by (relation "measure (\<lambda>(n, xs). length xs)") auto

function remainder :: "nat \<Rightarrow> 'a list \<Rightarrow> 'a list" where
  "remainder n xs = (if 0 < n \<and> n \<le> length xs then remainder n (drop n xs) else xs)"
  by pat_completeness auto
termination
  by (relation "measure (\<lambda>(n, xs). length xs)") auto

declare batches.simps [simp del] remainder.simps [simp del]

section \<open>Auxiliary facts\<close>

lemma concat_split_from:
  "concat (split_from sep cur s) = cur @ filter (\<lambda>c. c \<noteq> sep) s"
  by (induction s arbitrary: cur) simp_all

lemma nonempty_split_from:
  "concat (filter (\<lambda>t. t \<noteq> []) (split_from sep cur s)) = cur @ filter (\<lambda>c. c \<noteq> sep) s"
  by (induction s arbitrary: cur) simp_all

lemma append_tokens_concat: "append_tokens c tokens = c @ concat tokens"
  unfolding append_tokens_def by (induction tokens arbitrary: c) simp_all

lemma append_tokens_split:
  "append_tokens c (str_split text sep) = c @ filter (\<lambda>x. x \<noteq> sep) text"
  by (simp add: append_tokens_concat str_split_def concat_split_from)

lemma psr_completion:
  "StreamPrompting.completion (fst (process_streaming_response self chunks)) =
     StreamPrompting.completion self
       @ concat (map (filter (\<lambda>c. c \<noteq> newline)) (takeWhile well_formed_utf8 chunks))"
  by (induction chunks arbitrary: self) (simp_all add: decode_utf8_def append_tokens_split)

lemma psr_outcome:
  "snd (process_streaming_response self chunks) =
     (if list_all well_formed_utf8 chunks then None else Some UnicodeDecodeError)"
  by (induction chunks arbitrary: self) (simp_all add: decode_utf8_def)

lemma psr_frame:
  "StreamPrompting.roles (fst (process_streaming_response self chunks)) = StreamPrompting.roles self
   \<and> StreamPrompting.messages (fst (process_streaming_response self chunks)) = StreamPrompting.messages self"
  by (induction chunks arbitrary: self) (simp_all add: decode_utf8_def)

lemma send_tokens_four:
  "send_tokens (a # b # c # d # rest) [] =
     http_response_body (concat [a, b, c, d]) True # send_tokens rest []"
  by (simp add: N_def)

lemma send_tokens_short:
  "length ts < 4 \<Longrightarrow>
     send_tokens ts [] = (if ts = [] then [] else [http_response_body (concat ts) False])"
  by (cases ts; cases "tl ts"; cases "tl (tl ts)"; cases "tl (tl (tl ts))") (auto simp: N_def)

lemma four_le_length:
  "4 \<le> length ts \<Longrightarrow> \<exists>a b c d rest. ts = a # b # c # d # rest"
  by (auto simp: numeral_eq_Suc Suc_le_length_iff)

lemma send_tokens_batches:
  "send_tokens ts [] =
     map (\<lambda>b. http_response_body (concat b) True) (batches N ts)
       @ (if remainder N ts = [] then []
          else [http_response_body (concat (remainder N ts)) False])"
proof (induction ts rule: length_induct)
  case (1 ts)
  show ?case
  proof (cases "4 \<le> length ts")
    case True
    then obtain a b c d rest where ts: "ts = a # b # c # d # rest"
      using four_le_length by blast
    have b: "batches N ts = [a, b, c, d] # batches N rest"
      by (subst batches.simps) (simp add: ts N_def)
    have r: "remainder N ts = remainder N rest"
      by (subst remainder.simps) (simp add: ts N_def)
    have "length rest < length ts" by (simp add: ts)
    with 1 have ih: "send_tokens rest [] =
       map (\<lambda>b. http_response_body (concat b) True) (batches N rest)
         @ (if remainder N rest = [] then []
            else [http_response_body (concat (remainder N rest)) False])"
      by blast
    show ?thesis
      unfolding b r by (simp only: ts send_tokens_four ih list.map append_Cons)
  next
    case False
    then have short: "length ts < 4" by simp
    have b: "batches N ts = []"
      by (subst batches.simps) (use short in \<open>simp add: N_def\<close>)
    have r: "remainder N ts = ts"
      by (subst remainder.simps) (use short in \<open>simp add: N_def\<close>)
    show ?thesis
      unfolding b r using send_tokens_short [OF short] by simp
  qed
qed

lemma batches_remainder:
  "concat (batches n xs) @ remainder n xs = xs"
proof (induction n xs rule: batches.induct)
  case (1 n xs)
  show ?case
  proof (cases "0 < n \<and> n \<le> length xs")
    case True
    with 1 have ih: "concat (batches n (drop n xs)) @ remainder n (drop n xs) = drop n xs"
      by simp
    have b: "batches n xs = take n xs # batches n (drop n xs)"
      by (subst batches.simps) (use True in simp)
    have r: "remainder n xs = remainder n (drop n xs)"
      by (subst remainder.simps) (use True in simp)
    show ?thesis unfolding b r by (simp add: ih)
  next
    case False
    have b: "batches n xs = []"
      by (subst batches.simps) (simp only: False if_False)
    have r: "remainder n xs = xs"
      by (subst remainder.simps) (simp only: False if_False)
    show ?thesis unfolding b r by simp
  qed
qed

lemma batches_length:
  "b \<in> set (batches n xs) \<Longrightarrow> length b = n"
proof (induction n xs rule: batches.induct)
  case (1 n xs)
  show ?case
  proof (cases "0 < n \<and> n \<le> length xs")
    case True
    from "1.prems" have "b = take n xs \<or> b \<in> set (batches n (drop n xs))"
      by (subst (asm) batches.simps) (use True in simp)
    then show ?thesis using 1 True by auto
  next
    case False
    from "1.prems" show ?thesis by (subst (asm) batches.simps) (use False in simp)
  qed
qed

lemma remainder_length:
  "0 < n \<Longrightarrow> length (remainder n xs) < n"
proof (induction n xs rule: remainder.induct)
  case (1 n xs)
  show ?case
  proof (cases "n \<le> length xs")
    case True
    then show ?thesis using 1 by (subst remainder.simps) simp
  next
    case False
    then show ?thesis by (subst remainder.simps) simp
  qed
qed

section \<open>Streaming: what the receiver assembles and what the handler sends\<close>

text \<open>
  A chunk that holds a newline: the client receives the three bytes \<open>a\<close>, \<open>0x0A\<close>, \<open>b\<close> in
  one chunk, into an empty \<open>completion\<close>. The chunk decodes, nothing is raised, and
  \<open>completion\<close> ends as \<open>ab\<close>, which is not the text of the chunk.
\<close>

theorem C1_counterexample:
  "process_streaming_response
     \<lparr>StreamPrompting.roles = [''user''], messages = [''hi''], completion = ''''\<rparr>
     [[CHR ''a'', CHR 0x0A, CHR ''b'']]
   = (\<lparr>StreamPrompting.roles = [''user''], messages = [''hi''], completion = ''ab''\<rparr>, None)
   \<and> ''ab'' \<noteq> concat [[CHR ''a'', CHR 0x0A, CHR ''b'']]"
  by (simp add: decode_utf8_def in_range_def append_tokens_def str_split_def newline_def)

text \<open>
  C1, as amended. When \<open>process_streaming_response\<close> returns without raising, the final
  \<open>completion\<close> is the initial one followed by the decoded texts of the chunks in arrival
  order, each with its newline characters removed. When moreover no chunk holds a newline,
  that is the plain concatenation of the chunk texts. Two sequences of chunks that cut the
  same bytes at different places, both processed without raising, end in the same
  \<open>completion\<close>. For the tokens \<open>a b c d e\<close>, sent by
  the handler's loop with its batch size of 4 and received flush by flush into an empty
  \<open>completion\<close>, the final \<open>completion\<close> is \<open>abcde\<close>.
\<close>

theorem C1_streaming_concatenation:
  "(snd (process_streaming_response self chunks) = None \<longrightarrow>
      StreamPrompting.completion (fst (process_streaming_response self chunks)) =
        StreamPrompting.completion self @ concat (map (filter (\<lambda>c. c \<noteq> newline)) chunks))
   \<and> (snd (process_streaming_response self chunks) = None
        \<and> (\<forall>chunk \<in> set chunks. newline \<notin> set chunk) \<longrightarrow>
      StreamPrompting.completion (fst (process_streaming_response self chunks)) =
        StreamPrompting.completion self @ concat chunks)
   \<and> (snd (process_streaming_response self chunks) = None
        \<and> snd (process_streaming_response self chunks') = None
        \<and> concat chunks = concat chunks' \<longrightarrow>
      StreamPrompting.completion (fst (process_streaming_response self chunks)) =
        StreamPrompting.completion (fst (process_streaming_response self chunks')))
   \<and> process_streaming_response
        \<lparr>StreamPrompting.roles = r, messages = m, completion = ''''\<rparr>
        (map body (send_tokens [''a'', ''b'', ''c'', ''d'', ''e''] []))
      = (\<lparr>StreamPrompting.roles = r, messages = m, completion = ''abcde''\<rparr>, None)"
proof -
  have all: "takeWhile well_formed_utf8 cs = cs"
    if "snd (process_streaming_response self cs) = None" for cs
    using that by (simp add: psr_outcome list_all_iff takeWhile_eq_all_conv split: if_splits)
  have first: "StreamPrompting.completion (fst (process_streaming_response self cs)) =
        StreamPrompting.completion self @ concat (map (filter (\<lambda>c. c \<noteq> newline)) cs)"
    if "snd (process_streaming_response self cs) = None" for cs
    using psr_completion [of self cs] unfolding all [OF that] .
  have boundaries: "StreamPrompting.completion (fst (process_streaming_response self chunks)) =
        StreamPrompting.completion (fst (process_streaming_response self chunks'))"
    if "snd (process_streaming_response self chunks) = None"
      and "snd (process_streaming_response self chunks') = None"
      and "concat chunks = concat chunks'"
  proof -
    have "concat (map (filter (\<lambda>c. c \<noteq> newline)) chunks) =
        concat (map (filter (\<lambda>c. c \<noteq> newline)) chunks')"
      using that(3) by (simp flip: filter_concat)
    then show ?thesis using first [OF that(1)] first [OF that(2)] by simp
  qed
  have same: "map (filter (\<lambda>c. c \<noteq> newline)) chunks = chunks"
    if "\<forall>chunk \<in> set chunks. newline \<notin> set chunk"
    using that by (induction chunks) (auto simp: filter_id_conv)
  have example: "process_streaming_response
        \<lparr>StreamPrompting.roles = r, messages = m, completion = ''''\<rparr>
        (map body (send_tokens [''a'', ''b'', ''c'', ''d'', ''e''] []))
      = (\<lparr>StreamPrompting.roles = r, messages = m, completion = ''abcde''\<rparr>, None)"
    by (simp add: N_def http_response_body_def encode_utf8_def decode_utf8_def in_range_def
        append_tokens_def str_split_def newline_def)
  have second: "StreamPrompting.completion (fst (process_streaming_response self chunks)) =
        StreamPrompting.completion self @ concat chunks"
    if "snd (process_streaming_response self chunks) = None"
      and "\<forall>chunk \<in> set chunks. newline \<notin> set chunk"
    using first [OF that(1)] same [OF that(2)] by simp
  show ?thesis using first [of chunks] second boundaries example by blast
qed

text \<open>The statement at the chunks \<open>ab\<close>, \<open>c\<close>: both decode, neither holds a newline.\<close>

theorem C1_streaming_concatenation_witness:
  "snd (process_streaming_response
          \<lparr>StreamPrompting.roles = [''user''], messages = [''hi''], completion = ''''\<rparr>
          [''ab'', ''c'']) = None
   \<and> newline \<notin> set ''ab'' \<and> newline \<notin> set ''c''
   \<and> StreamPrompting.completion (fst (process_streaming_response
          \<lparr>StreamPrompting.roles = [''user''], messages = [''hi''], completion = ''''\<rparr>
          [''ab'', ''c''])) = ''abc''"
proof -
  have ok: "snd (process_streaming_response
          \<lparr>StreamPrompting.roles = [''user''], messages = [''hi''], completion = ''''\<rparr>
          [''ab'', ''c'']) = None"
    by (simp add: decode_utf8_def in_range_def)
  have nl: "\<forall>chunk \<in> set [''ab'', ''c'']. newline \<notin> set chunk"
    by (simp add: newline_def)
  have "StreamPrompting.completion (fst (process_streaming_response
          \<lparr>StreamPrompting.roles = [''user''], messages = [''hi''], completion = ''''\<rparr>
          [''ab'', ''c''])) =
        StreamPrompting.completion
          \<lparr>StreamPrompting.roles = [''user''], messages = [''hi''], completion = ''''\<rparr>
          @ concat [''ab'', ''c'']"
    using ok nl
      C1_streaming_concatenation
        [of "\<lparr>StreamPrompting.roles = [''user''], messages = [''hi''], completion = ''''\<rparr>"
            "[''ab'', ''c'']"]
    by blast
  then have "StreamPrompting.completion (fst (process_streaming_response
          \<lparr>StreamPrompting.roles = [''user''], messages = [''hi''], completion = ''''\<rparr>
          [''ab'', ''c''])) = ''abc''"
    by simp
  with ok nl show ?thesis by simp
qed

text \<open>
  Four tokens: the loop flushes them once, marked \<open>more_body = True\<close>, the buffer is empty
  when the loop ends, and nothing marked \<open>more_body = False\<close> is sent. The last flush is
  marked "more data follows".
\<close>

theorem C2_counterexample:
  "send_tokens [''a'', ''b'', ''c'', ''d''] [] =
     [\<lparr>msg_type = ''http.response.body'', body = ''abcd'', more_body = True\<rparr>]
   \<and> more_body (last (send_tokens [''a'', ''b'', ''c'', ''d''] [])) \<noteq> False"
  by (simp add: N_def http_response_body_def encode_utf8_def)

text \<open>
  C2, as amended. For every finite sequence of tokens, the loop of \<open>_prompt\<close> sends, in
  order, one message per successive full batch of 4 tokens, carrying the concatenation of
  the batch and marked \<open>more_body = True\<close>, and then, only when the number of tokens is not
  a multiple of 4, one message carrying the concatenation of the remaining tokens, marked
  \<open>more_body = False\<close>. The batches followed by the remainder are the tokens, and these
  are the messages of the handler whenever the model yields the tokens.
\<close>

theorem C2_flushes_in_batches:
  "send_tokens tokens [] =
     map (\<lambda>b. \<lparr>msg_type = ''http.response.body'', body = concat b, more_body = True\<rparr>)
         (batches 4 tokens)
       @ (if remainder 4 tokens = [] then []
          else [\<lparr>msg_type = ''http.response.body'', body = concat (remainder 4 tokens),
                 more_body = False\<rparr>])
   \<and> (\<forall>b \<in> set (batches 4 tokens). length b = 4)
   \<and> length (remainder 4 tokens) < 4
   \<and> concat (batches 4 tokens) @ remainder 4 tokens = tokens
   \<and> (model tok (squeeze (input_ids tok text)) = Inr tokens \<longrightarrow>
        inner_prompt tok text = Inr (send_tokens tokens []))"
proof -
  have "send_tokens tokens [] =
     map (\<lambda>b. \<lparr>msg_type = ''http.response.body'', body = concat b, more_body = True\<rparr>)
         (batches 4 tokens)
       @ (if remainder 4 tokens = [] then []
          else [\<lparr>msg_type = ''http.response.body'', body = concat (remainder 4 tokens),
                 more_body = False\<rparr>])"
    using send_tokens_batches [of tokens]
    by (simp add: http_response_body_def encode_utf8_def N_def)
  moreover have "\<forall>b \<in> set (batches 4 tokens). length b = 4"
    using batches_length by blast
  moreover have "length (remainder 4 tokens) < 4"
    by (rule remainder_length) simp
  moreover have "concat (batches 4 tokens) @ remainder 4 tokens = tokens"
    by (rule batches_remainder)
  moreover have "model tok (squeeze (input_ids tok text)) = Inr tokens \<longrightarrow>
        inner_prompt tok text = Inr (send_tokens tokens [])"
    by (simp add: inner_prompt_def)
  ultimately show ?thesis by blast
qed

text \<open>
  The statement at the tokens \<open>a b c d e\<close>, for a tokenizer that yields them: one full
  batch \<open>abcd\<close> marked as followed by more data, then the remainder \<open>e\<close> marked final.
\<close>

theorem C2_flushes_in_batches_witness:
  "model \<lparr>input_ids = (\<lambda>t. [0, 1, 2, 3, 4]),
           decode = (\<lambda>i. [''a'', ''b'', ''c'', ''d'', ''e''] ! i)\<rparr>
         (squeeze [0, 1, 2, 3, 4]) = Inr [''a'', ''b'', ''c'', ''d'', ''e'']
   \<and> batches 4 [''a'', ''b'', ''c'', ''d'', ''e''] = [[''a'', ''b'', ''c'', ''d'']]
   \<and> remainder 4 [''a'', ''b'', ''c'', ''d'', ''e''] = [''e'']
   \<and> inner_prompt \<lparr>input_ids = (\<lambda>t. [0, 1, 2, 3, 4]),
           decode = (\<lambda>i. [''a'', ''b'', ''c'', ''d'', ''e''] ! i)\<rparr> ''abcde'' =
       Inr [\<lparr>msg_type = ''http.response.body'', body = ''abcd'', more_body = True\<rparr>,
            \<lparr>msg_type = ''http.response.body'', body = ''e'', more_body = False\<rparr>]"
proof -
  have m: "model \<lparr>input_ids = (\<lambda>t. [0, 1, 2, 3, 4]),
           decode = (\<lambda>i. [''a'', ''b'', ''c'', ''d'', ''e''] ! i)\<rparr>
         (squeeze [0, 1, 2, 3, 4]) = Inr [''a'', ''b'', ''c'', ''d'', ''e'']"
    by (simp add: model_def squeeze_def)
  have b: "batches 4 [''a'', ''b'', ''c'', ''d'', ''e''] = [[''a'', ''b'', ''c'', ''d'']]"
    by (simp add: batches.simps)
  have r: "remainder 4 [''a'', ''b'', ''c'', ''d'', ''e''] = [''e'']"
    by (simp add: remainder.simps)
  note claim = C2_flushes_in_batches
        [of "[''a'', ''b'', ''c'', ''d'', ''e'']"
            "\<lparr>input_ids = (\<lambda>t. [0, 1, 2, 3, 4]),
              decode = (\<lambda>i. [''a'', ''b'', ''c'', ''d'', ''e''] ! i)\<rparr>" "''abcde''"]
  have sends: "send_tokens [''a'', ''b'', ''c'', ''d'', ''e''] [] =
       [\<lparr>msg_type = ''http.response.body'', body = ''abcd'', more_body = True\<rparr>,
        \<lparr>msg_type = ''http.response.body'', body = ''e'', more_body = False\<rparr>]"
    using claim unfolding b r by simp
  have "inner_prompt \<lparr>input_ids = (\<lambda>t. [0, 1, 2, 3, 4]),
           decode = (\<lambda>i. [''a'', ''b'', ''c'', ''d'', ''e''] ! i)\<rparr> ''abcde'' =
        Inr (send_tokens [''a'', ''b'', ''c'', ''d'', ''e''] [])"
    using claim m by simp
  then show ?thesis using m b r sends by simp
qed

text \<open>
  C9. For every envelope and every sequence of chunks, the \<open>completion\<close> before
  \<open>process_streaming_response\<close> runs is a prefix of the \<open>completion\<close> after it, also when
  decoding a chunk raises part of the way: the assembler only appends.
\<close>

theorem C9_completion_prefix:
  "prefix (StreamPrompting.completion self)
          (StreamPrompting.completion (fst (process_streaming_response self chunks)))"
  by (simp add: psr_completion)

text \<open>
  C10. For every chunk that \<open>process_streaming_response\<close> processes, wherever it stands in
  the response: a chunk that decodes appends its decoded text with every newline character
  removed, and the assembler goes on with the chunks after it; a chunk that does not decode
  appends nothing, and the exception is raised there. The non-empty fragments of the split
  on the newline, concatenated, are the text without its newlines. So over any sequence of
  chunks the final \<open>completion\<close> is the initial one followed by the texts, without their
  newlines, of the chunks before the first one that does not decode, and what has been added
  behind the initial \<open>completion\<close> holds no newline character.
\<close>

theorem C10_newlines_removed:
  "(decode_utf8 chunk = Inr text \<longrightarrow>
      process_streaming_response self (chunk # rest) =
        process_streaming_response
          (self\<lparr>StreamPrompting.completion :=
                   StreamPrompting.completion self @ filter (\<lambda>c. c \<noteq> newline) text\<rparr>)
          rest)
   \<and> (decode_utf8 chunk = Inl e \<longrightarrow>
        process_streaming_response self (chunk # rest) = (self, Some e))
   \<and> process_streaming_response self [] = (self, None)
   \<and> (decode_utf8 chunk = Inr text \<longrightarrow>
      process_streaming_response self [chunk] =
        (self\<lparr>StreamPrompting.completion :=
                 StreamPrompting.completion self @ filter (\<lambda>c. c \<noteq> newline) text\<rparr>, None))
   \<and> (decode_utf8 chunk = Inl e \<longrightarrow> process_streaming_response self [chunk] = (self, Some e))
   \<and> (decode_utf8 chunk = Inr text \<longleftrightarrow> well_formed_utf8 chunk \<and> text = chunk)
   \<and> concat (filter (\<lambda>t. t \<noteq> []) (str_split text newline)) = filter (\<lambda>c. c \<noteq> newline) text
   \<and> StreamPrompting.completion (fst (process_streaming_response self chunks)) =
       StreamPrompting.completion self
         @ concat (map (filter (\<lambda>c. c \<noteq> newline)) (takeWhile well_formed_utf8 chunks))
   \<and> snd (process_streaming_response self chunks) =
       (if list_all well_formed_utf8 chunks then None else Some UnicodeDecodeError)
   \<and> newline \<notin> set (drop (length (StreamPrompting.completion self))
                         (StreamPrompting.completion (fst (process_streaming_response self chunks))))"
proof -
  have step: "process_streaming_response self (chunk # cs) =
        process_streaming_response
          (self\<lparr>StreamPrompting.completion :=
                   StreamPrompting.completion self @ filter (\<lambda>c. c \<noteq> newline) text\<rparr>)
          cs"
    if "decode_utf8 chunk = Inr text" for cs
    using that by (simp add: append_tokens_split)
  have raise: "process_streaming_response self (chunk # cs) = (self, Some e)"
    if "decode_utf8 chunk = Inl e" for cs
    using that by simp
  have single: "process_streaming_response self [chunk] =
        (self\<lparr>StreamPrompting.completion :=
                 StreamPrompting.completion self @ filter (\<lambda>c. c \<noteq> newline) text\<rparr>, None)"
    if "decode_utf8 chunk = Inr text"
    using step [OF that, of "[]"] by simp
  have decoded: "decode_utf8 chunk = Inr text \<longleftrightarrow> well_formed_utf8 chunk \<and> text = chunk"
    by (auto simp: decode_utf8_def)
  have split: "concat (filter (\<lambda>t. t \<noteq> []) (str_split text newline)) =
      filter (\<lambda>c. c \<noteq> newline) text"
    by (simp add: str_split_def nonempty_split_from)
  have total: "StreamPrompting.completion (fst (process_streaming_response self chunks)) =
       StreamPrompting.completion self
         @ concat (map (filter (\<lambda>c. c \<noteq> newline)) (takeWhile well_formed_utf8 chunks))"
    by (rule psr_completion)
  have outcome: "snd (process_streaming_response self chunks) =
       (if list_all well_formed_utf8 chunks then None else Some UnicodeDecodeError)"
    by (rule psr_outcome)
  have free: "newline \<notin> set (drop (length (StreamPrompting.completion self))
                         (StreamPrompting.completion (fst (process_streaming_response self chunks))))"
    by (simp add: psr_completion)
  have base: "process_streaming_response self [] = (self, None)"
    by simp
  show ?thesis
    using step [of rest] raise [of rest] raise [of "[]"] single decoded split total outcome
      free base
    by blast
qed

text \<open>
  The statement at a response of two chunks received behind \<open>x\<close>, the first with three
  newlines, two of them adjacent, and at a response whose first chunk is the first byte of a
  two-byte sequence alone, followed by a chunk that would decode.
\<close>

theorem C10_newlines_removed_witness:
  "decode_utf8 [CHR ''a'', CHR 0x0A, CHR 0x0A, CHR ''b'', CHR 0x0A] =
     Inr [CHR ''a'', CHR 0x0A, CHR 0x0A, CHR ''b'', CHR 0x0A]
   \<and> process_streaming_response
       \<lparr>StreamPrompting.roles = [''user''], messages = [''hi''], completion = ''x''\<rparr>
       [[CHR ''a'', CHR 0x0A, CHR 0x0A, CHR ''b'', CHR 0x0A], ''cd''] =
     (\<lparr>StreamPrompting.roles = [''user''], messages = [''hi''], completion = ''xabcd''\<rparr>, None)
   \<and> decode_utf8 [CHR 0xC3] = Inl UnicodeDecodeError
   \<and> process_streaming_response
       \<lparr>StreamPrompting.roles = [''user''], messages = [''hi''], completion = ''x''\<rparr>
       [[CHR 0xC3], ''cd''] =
     (\<lparr>StreamPrompting.roles = [''user''], messages = [''hi''], completion = ''x''\<rparr>,
      Some UnicodeDecodeError)"
proof -
  have d1: "decode_utf8 [CHR ''a'', CHR 0x0A, CHR 0x0A, CHR ''b'', CHR 0x0A] =
     Inr [CHR ''a'', CHR 0x0A, CHR 0x0A, CHR ''b'', CHR 0x0A]"
    by (simp add: decode_utf8_def in_range_def)
  have d2: "decode_utf8 [CHR 0xC3] = Inl UnicodeDecodeError"
    by (simp add: decode_utf8_def in_range_def)
  have r1: "process_streaming_response
       \<lparr>StreamPrompting.roles = [''user''], messages = [''hi''], completion = ''x''\<rparr>
       ([CHR ''a'', CHR 0x0A, CHR 0x0A, CHR ''b'', CHR 0x0A] # [''cd'']) =
     process_streaming_response
       (\<lparr>StreamPrompting.roles = [''user''], messages = [''hi''], completion = ''x''\<rparr>
        \<lparr>StreamPrompting.completion :=
           StreamPrompting.completion
             \<lparr>StreamPrompting.roles = [''user''], messages = [''hi''], completion = ''x''\<rparr>
           @ filter (\<lambda>c. c \<noteq> newline) [CHR ''a'', CHR 0x0A, CHR 0x0A, CHR ''b'', CHR 0x0A]\<rparr>)
       [''cd'']"
    using d1 C10_newlines_removed
      [of "[CHR ''a'', CHR 0x0A, CHR 0x0A, CHR ''b'', CHR 0x0A]"
          "[CHR ''a'', CHR 0x0A, CHR 0x0A, CHR ''b'', CHR 0x0A]"
          "\<lparr>StreamPrompting.roles = [''user''], messages = [''hi''], completion = ''x''\<rparr>"
          "[''cd'']"]
    by blast
  have r2: "process_streaming_response
       \<lparr>StreamPrompting.roles = [''user''], messages = [''hi''], completion = ''x''\<rparr>
       ([CHR 0xC3] # [''cd'']) =
     (\<lparr>StreamPrompting.roles = [''user''], messages = [''hi''], completion = ''x''\<rparr>,
      Some UnicodeDecodeError)"
    using d2 C10_newlines_removed
      [of "[CHR 0xC3]" _
          "\<lparr>StreamPrompting.roles = [''user''], messages = [''hi''], completion = ''x''\<rparr>"
          "[''cd'']" UnicodeDecodeError]
    by blast
  have tail: "process_streaming_response
       \<lparr>StreamPrompting.roles = [''user''], messages = [''hi''], completion = ''xab''\<rparr>
       [''cd''] =
     (\<lparr>StreamPrompting.roles = [''user''], messages = [''hi''], completion = ''xabcd''\<rparr>, None)"
    by (simp add: decode_utf8_def in_range_def append_tokens_def str_split_def newline_def)
  from r1 have r1': "process_streaming_response
       \<lparr>StreamPrompting.roles = [''user''], messages = [''hi''], completion = ''x''\<rparr>
       [[CHR ''a'', CHR 0x0A, CHR 0x0A, CHR ''b'', CHR 0x0A], ''cd''] =
     process_streaming_response
       \<lparr>StreamPrompting.roles = [''user''], messages = [''hi''], completion = ''xab''\<rparr>
       [''cd'']"
    by (simp add: newline_def)
  from d1 d2 r1' r2 show ?thesis unfolding tail by blast
qed

section \<open>The envelope\<close>

text \<open>
  C3. \<open>deserialize()\<close> of a \<open>Prompting\<close> and of a \<open>StreamPrompting\<close> envelope returns the
  envelope's current \<open>completion\<close>: whatever text has been written into \<open>completion\<close>,
  that text is returned, and after the handler \<open>prompt\<close> of the first notebook has written
  its completion, \<open>deserialize()\<close> returns the handler's text.
\<close>

theorem C3_deserialize_returns_completion:
  "fst (Prompting_deserialize p) = Prompting.completion p
   \<and> fst (StreamPrompting_deserialize s) = StreamPrompting.completion s
   \<and> fst (Prompting_deserialize (p\<lparr>Prompting.completion := written\<rparr>)) = written
   \<and> fst (StreamPrompting_deserialize (s\<lparr>StreamPrompting.completion := written\<rparr>)) = written
   \<and> fst (Prompting_deserialize (prompting_prompt p)) = ''I am a chatbot''"
  by (simp add: Prompting_deserialize_def StreamPrompting_deserialize_def prompting_prompt_def)


text \<open>
  C6. In both notebooks \<open>priority\<close> returns \<open>0.0\<close> and leaves the envelope as it was:
  \<open>roles\<close>, \<open>messages\<close> and \<open>completion\<close> are unchanged.
\<close>

theorem C6_priority_pure:
  "prompting_priority p = (0, p) \<and> streaming_priority s = (0, s)
   \<and> Prompting.roles (snd (prompting_priority p)) = Prompting.roles p
   \<and> Prompting.messages (snd (prompting_priority p)) = Prompting.messages p
   \<and> Prompting.completion (snd (prompting_priority p)) = Prompting.completion p
   \<and> StreamPrompting.roles (snd (streaming_priority s)) = StreamPrompting.roles s
   \<and> StreamPrompting.messages (snd (streaming_priority s)) = StreamPrompting.messages s
   \<and> StreamPrompting.completion (snd (streaming_priority s)) = StreamPrompting.completion s"
  by (simp add: prompting_priority_def streaming_priority_def)

text \<open>
  C7. A \<open>Prompting\<close> or \<open>StreamPrompting\<close> envelope constructed with \<open>roles\<close> and
  \<open>messages\<close> and no \<open>completion\<close> is created, holds the two values given, and its
  \<open>completion\<close> is the empty string.
\<close>

theorem C7_completion_empty_at_creation:
  "Prompting_init (Some r) (Some m) None =
     Inr \<lparr>Prompting.roles = r, messages = m, completion = ''''\<rparr>
   \<and> StreamPrompting_init (Some r) (Some m) None =
     Inr \<lparr>StreamPrompting.roles = r, messages = m, completion = ''''\<rparr>"
  by (simp add: Prompting_init_def StreamPrompting_init_def field_value_def
      Prompting_roles_def Prompting_messages_def Prompting_completion_def
      StreamPrompting_roles_def StreamPrompting_messages_def StreamPrompting_completion_def)

text \<open>
  The field \<open>completion\<close> is declared without \<open>allow_mutation=False\<close>: the assignments
  of the handler and of the assembler to it pass the check, whatever the \<open>Config\<close>.
\<close>

lemma Prompting_setattr_completion:
  "Prompting_setattr self (Completion v) = Inr (self\<lparr>Prompting.completion := v\<rparr>)"
  by (simp add: Prompting_setattr_def check_assignment_def Prompting_completion_def)

lemma StreamPrompting_setattr_completion:
  "StreamPrompting_setattr inherited self (Completion v) =
     Inr (self\<lparr>StreamPrompting.completion := v\<rparr>)"
  by (simp add: StreamPrompting_setattr_def check_assignment_def StreamPrompting_completion_def)

text \<open>
  C4. \<open>roles\<close> and \<open>messages\<close> of an envelope do not change after construction: the
  handler \<open>prompt\<close>, \<open>blacklist\<close>, \<open>priority\<close> and \<open>deserialize\<close> of both notebooks and
  the streaming assembler leave them as they were, and an assignment to either field is
  rejected with \<open>TypeError\<close>: for \<open>Prompting\<close> under the \<open>Config\<close> the class declares, for
  \<open>StreamPrompting\<close> under an inherited \<open>Config\<close> that sets \<open>validate_assignment\<close>.
\<close>

theorem C4_roles_messages_immutable:
  "Prompting.roles (prompting_prompt p) = Prompting.roles p
   \<and> Prompting.messages (prompting_prompt p) = Prompting.messages p
   \<and> snd (prompting_blacklist p) = p
   \<and> snd (prompting_priority p) = p
   \<and> snd (Prompting_deserialize p) = p
   \<and> (streaming_prompt tok s = Inr resp \<longrightarrow> synapse_model resp = s)
   \<and> snd (streaming_blacklist s) = s
   \<and> snd (streaming_priority s) = s
   \<and> snd (StreamPrompting_deserialize s) = s
   \<and> StreamPrompting.roles (fst (process_streaming_response s chunks)) = StreamPrompting.roles s
   \<and> StreamPrompting.messages (fst (process_streaming_response s chunks)) =
       StreamPrompting.messages s
   \<and> Prompting_setattr p (Roles v) = Inl TypeError
   \<and> Prompting_setattr p (Messages v) = Inl TypeError
   \<and> (validate_assignment inherited \<longrightarrow>
        StreamPrompting_setattr inherited s (Roles v) = Inl TypeError
        \<and> StreamPrompting_setattr inherited s (Messages v) = Inl TypeError)"
proof -
  have handler: "Prompting.roles (prompting_prompt p) = Prompting.roles p
      \<and> Prompting.messages (prompting_prompt p) = Prompting.messages p"
    by (simp add: prompting_prompt_def)
  have pure: "snd (prompting_blacklist p) = p \<and> snd (prompting_priority p) = p
      \<and> snd (Prompting_deserialize p) = p \<and> snd (streaming_blacklist s) = s
      \<and> snd (streaming_priority s) = s \<and> snd (StreamPrompting_deserialize s) = s"
    by (simp add: prompting_blacklist_def prompting_priority_def Prompting_deserialize_def
        streaming_blacklist_def streaming_priority_def StreamPrompting_deserialize_def)
  have stream: "streaming_prompt tok s = Inr resp \<longrightarrow> synapse_model resp = s"
    by (auto simp: streaming_prompt_def split: list.splits)
  have assign: "Prompting_setattr p (Roles v) = Inl TypeError
      \<and> Prompting_setattr p (Messages v) = Inl TypeError"
    by (simp add: Prompting_setattr_def check_assignment_def Prompting_Config_def
        Prompting_roles_def Prompting_messages_def)
  have assign_stream: "validate_assignment inherited \<longrightarrow>
        StreamPrompting_setattr inherited s (Roles v) = Inl TypeError
        \<and> StreamPrompting_setattr inherited s (Messages v) = Inl TypeError"
    by (simp add: StreamPrompting_setattr_def check_assignment_def
        StreamPrompting_roles_def StreamPrompting_messages_def)
  show ?thesis
    using handler pure stream psr_frame [of s chunks] assign assign_stream by blast
qed

text \<open>
  The statement at a request with one message, for a tokenizer that yields two tokens: the
  handler returns a response around the unchanged envelope, and the assignments are rejected.
\<close>

theorem C4_roles_messages_immutable_witness:
  "streaming_prompt \<lparr>input_ids = (\<lambda>t. [0, 1]), decode = (\<lambda>i. [''a'', ''b''] ! i)\<rparr>
      \<lparr>StreamPrompting.roles = [''user''], messages = [''hi''], completion = ''''\<rparr> =
     Inr \<lparr>synapse_model =
            \<lparr>StreamPrompting.roles = [''user''], messages = [''hi''], completion = ''''\<rparr>,
          token_streamer =
            Inr [\<lparr>msg_type = ''http.response.body'', body = ''ab'', more_body = False\<rparr>]\<rparr>
   \<and> synapse_model
        \<lparr>synapse_model =
            \<lparr>StreamPrompting.roles = [''user''], messages = [''hi''], completion = ''''\<rparr>,
          token_streamer =
            Inr [\<lparr>msg_type = ''http.response.body'', body = ''ab'', more_body = False\<rparr>]\<rparr> =
       \<lparr>StreamPrompting.roles = [''user''], messages = [''hi''], completion = ''''\<rparr>
   \<and> validate_assignment \<lparr>validate_assignment = True\<rparr>
   \<and> StreamPrompting_setattr \<lparr>validate_assignment = True\<rparr>
        \<lparr>StreamPrompting.roles = [''user''], messages = [''hi''], completion = ''''\<rparr>
        (Roles [''system'']) = Inl TypeError
   \<and> StreamPrompting_setattr \<lparr>validate_assignment = True\<rparr>
        \<lparr>StreamPrompting.roles = [''user''], messages = [''hi''], completion = ''''\<rparr>
        (Messages [''bye'']) = Inl TypeError
   \<and> Prompting_setattr
        \<lparr>Prompting.roles = [''user''], messages = [''hello, who are you?''], completion = ''''\<rparr>
        (Messages [''bye'']) = Inl TypeError"
proof -
  have run: "streaming_prompt \<lparr>input_ids = (\<lambda>t. [0, 1]), decode = (\<lambda>i. [''a'', ''b''] ! i)\<rparr>
      \<lparr>StreamPrompting.roles = [''user''], messages = [''hi''], completion = ''''\<rparr> =
     Inr \<lparr>synapse_model =
            \<lparr>StreamPrompting.roles = [''user''], messages = [''hi''], completion = ''''\<rparr>,
          token_streamer =
            Inr [\<lparr>msg_type = ''http.response.body'', body = ''ab'', more_body = False\<rparr>]\<rparr>"
    by (simp add: streaming_prompt_def inner_prompt_def model_def squeeze_def N_def
        http_response_body_def encode_utf8_def)
  have cfg: "validate_assignment \<lparr>validate_assignment = True\<rparr>"
    by simp
  note claim = C4_roles_messages_immutable
      [of "\<lparr>Prompting.roles = [''user''], messages = [''hello, who are you?''],
             completion = ''''\<rparr>"
          "\<lparr>input_ids = (\<lambda>t. [0, 1]), decode = (\<lambda>i. [''a'', ''b''] ! i)\<rparr>"
          "\<lparr>StreamPrompting.roles = [''user''], messages = [''hi''], completion = ''''\<rparr>"
          "\<lparr>synapse_model =
            \<lparr>StreamPrompting.roles = [''user''], messages = [''hi''], completion = ''''\<rparr>,
          token_streamer =
            Inr [\<lparr>msg_type = ''http.response.body'', body = ''ab'', more_body = False\<rparr>]\<rparr>"
          "[]" "[''system'']" "\<lparr>validate_assignment = True\<rparr>"]
  note claim' = C4_roles_messages_immutable
      [of "\<lparr>Prompting.roles = [''user''], messages = [''hello, who are you?''],
             completion = ''''\<rparr>"
          "\<lparr>input_ids = (\<lambda>t. [0, 1]), decode = (\<lambda>i. [''a'', ''b''] ! i)\<rparr>"
          "\<lparr>StreamPrompting.roles = [''user''], messages = [''hi''], completion = ''''\<rparr>"
          "\<lparr>synapse_model =
            \<lparr>StreamPrompting.roles = [''user''], messages = [''hi''], completion = ''''\<rparr>,
          token_streamer =
            Inr [\<lparr>msg_type = ''http.response.body'', body = ''ab'', more_body = False\<rparr>]\<rparr>"
          "[]" "[''bye'']" "\<lparr>validate_assignment = True\<rparr>"]
  from run cfg claim claim' show ?thesis by blast
qed

text \<open>
  C8. On an envelope whose \<open>messages\<close> start with \<open>message\<close>, the streaming handler
  \<open>prompt\<close> returns a response whose streamer is \<open>_prompt\<close> on that first message, so two
  envelopes with the same first message stream the same, whatever their other messages, roles
  and completion. On an envelope with no message, \<open>messages[0]\<close> raises \<open>IndexError\<close>. The
  handler returns a response exactly when \<open>messages\<close> is not empty.
\<close>

theorem C8_handler_reads_first_message:
  "(StreamPrompting.messages s = message # others \<longrightarrow>
      streaming_prompt tok s =
        Inr \<lparr>synapse_model = s, token_streamer = inner_prompt tok message\<rparr>)
   \<and> (StreamPrompting.messages s = [] \<longrightarrow> streaming_prompt tok s = Inl IndexError)
   \<and> ((\<exists>resp. streaming_prompt tok s = Inr resp) \<longleftrightarrow> StreamPrompting.messages s \<noteq> [])
   \<and> map_sum (\<lambda>e. e) token_streamer
        (streaming_prompt tok (s\<lparr>StreamPrompting.messages := message # others\<rparr>)) =
      map_sum (\<lambda>e. e) token_streamer
        (streaming_prompt tok (s'\<lparr>StreamPrompting.messages := message # others'\<rparr>))"
  by (auto simp: streaming_prompt_def split: list.splits)

text \<open>
  The statement at an envelope with two messages and at an envelope with none.
\<close>

theorem C8_handler_reads_first_message_witness:
  "StreamPrompting.messages
      \<lparr>StreamPrompting.roles = [''user''], messages = [''hi'', ''there''], completion = ''''\<rparr> =
     ''hi'' # [''there'']
   \<and> streaming_prompt \<lparr>input_ids = (\<lambda>t. [0, 1]), decode = (\<lambda>i. [''a'', ''b''] ! i)\<rparr>
      \<lparr>StreamPrompting.roles = [''user''], messages = [''hi'', ''there''], completion = ''''\<rparr> =
     Inr \<lparr>synapse_model =
            \<lparr>StreamPrompting.roles = [''user''], messages = [''hi'', ''there''],
              completion = ''''\<rparr>,
          token_streamer =
            Inr [\<lparr>msg_type = ''http.response.body'', body = ''ab'', more_body = False\<rparr>]\<rparr>
   \<and> StreamPrompting.messages
      \<lparr>StreamPrompting.roles = [''user''], messages = [], completion = ''''\<rparr> = []
   \<and> streaming_prompt \<lparr>input_ids = (\<lambda>t. [0, 1]), decode = (\<lambda>i. [''a'', ''b''] ! i)\<rparr>
      \<lparr>StreamPrompting.roles = [''user''], messages = [], completion = ''''\<rparr> =
     Inl IndexError"
proof -
  have first: "StreamPrompting.messages
      \<lparr>StreamPrompting.roles = [''user''], messages = [''hi'', ''there''], completion = ''''\<rparr> =
     ''hi'' # [''there'']"
    by simp
  have none: "StreamPrompting.messages
      \<lparr>StreamPrompting.roles = [''user''], messages = [], completion = ''''\<rparr> = []"
    by simp
  have streamer: "inner_prompt \<lparr>input_ids = (\<lambda>t. [0, 1]), decode = (\<lambda>i. [''a'', ''b''] ! i)\<rparr>
      ''hi'' = Inr [\<lparr>msg_type = ''http.response.body'', body = ''ab'', more_body = False\<rparr>]"
    by (simp add: inner_prompt_def model_def squeeze_def N_def http_response_body_def
        encode_utf8_def)
  have in_bounds: "streaming_prompt \<lparr>input_ids = (\<lambda>t. [0, 1]), decode = (\<lambda>i. [''a'', ''b''] ! i)\<rparr>
      \<lparr>StreamPrompting.roles = [''user''], messages = [''hi'', ''there''], completion = ''''\<rparr> =
     Inr \<lparr>synapse_model =
            \<lparr>StreamPrompting.roles = [''user''], messages = [''hi'', ''there''],
              completion = ''''\<rparr>,
          token_streamer =
            inner_prompt \<lparr>input_ids = (\<lambda>t. [0, 1]), decode = (\<lambda>i. [''a'', ''b''] ! i)\<rparr>
              ''hi''\<rparr>"
    using first C8_handler_reads_first_message
      [of "\<lparr>StreamPrompting.roles = [''user''], messages = [''hi'', ''there''],
             completion = ''''\<rparr>" "''hi''" "[''there'']"
          "\<lparr>input_ids = (\<lambda>t. [0, 1]), decode = (\<lambda>i. [''a'', ''b''] ! i)\<rparr>"]
    by blast
  have out_of_bounds: "streaming_prompt
      \<lparr>input_ids = (\<lambda>t. [0, 1]), decode = (\<lambda>i. [''a'', ''b''] ! i)\<rparr>
      \<lparr>StreamPrompting.roles = [''user''], messages = [], completion = ''''\<rparr> =
     Inl IndexError"
    using none C8_handler_reads_first_message
      [of "\<lparr>StreamPrompting.roles = [''user''], messages = [], completion = ''''\<rparr>" _ _
          "\<lparr>input_ids = (\<lambda>t. [0, 1]), decode = (\<lambda>i. [''a'', ''b''] ! i)\<rparr>"]
    by blast
  from first none in_bounds out_of_bounds show ?thesis unfolding streamer by blast
qed

end
